theory Spec2Isabelle
  imports Complex_Main "HOL-Library.Multiset"
begin

section \<open>Python values used by the reporting scripts\<close>

text \<open>
  The scripts compute with Python \<open>int\<close> (unbounded, modelled by \<^typ>\<open>int\<close>), \<open>str\<close>
  (modelled by \<^typ>\<open>string\<close>) and \<open>float\<close>. A Python float is an IEEE-754 binary64
  number; it is modelled by the rational number it denotes, and every operation rounds
  its exact result to the nearest number with a 53-bit significand, ties to even
  (\<open>fl\<close>). The exponent range is not bounded in the model: infinities, NaN and
  subnormal numbers (magnitudes above about \<open>1.8e308\<close> or below \<open>2.3e-308\<close>) are not
  represented.
\<close>

datatype py_error =
  ZeroDivisionError | KeyError | IndexError | NameError | ValueError | TypeError

type_synonym pyfloat = rat

function bits :: "int \<Rightarrow> int" where
  "bits n = (if n \<le> 0 then 0 else 1 + bits (n div 2))"
  by pat_completeness auto
termination
  by (relation "measure nat") auto

declare bits.simps [simp del]

definition pow2 :: "int \<Rightarrow> rat" where
  "pow2 e = (if 0 \<le> e then 2 ^ nat e else 1 / 2 ^ nat (- e))"

definition round_half_even :: "rat \<Rightarrow> int" where
  "round_half_even r =
     (let f = \<lfloor>r\<rfloor>; d = r - of_int f
      in if d < 1 / 2 then f
         else if 1 / 2 < d then f + 1
         else if even f then f else f + 1)"

text \<open>\<open>ilog2 x\<close> is \<open>\<lfloor>log\<^sub>2 x\<rfloor>\<close> for a positive rational \<open>x\<close>.\<close>

definition ilog2 :: "rat \<Rightarrow> int" where
  "ilog2 x =
     (if 1 \<le> x then bits \<lfloor>x\<rfloor> - 1
      else let k = bits \<lfloor>1 / x\<rfloor> - 1
           in if pow2 (- k) \<le> x then - k else - k - 1)"

definition fl :: "rat \<Rightarrow> pyfloat" where
  "fl x =
     (if x = 0 then 0
      else let e = ilog2 \<bar>x\<bar> - 52
           in sgn x * of_int (round_half_even (\<bar>x\<bar> / pow2 e)) * pow2 e)"

text \<open>Conversion of an \<open>int\<close> operand in mixed arithmetic, and the float operators.\<close>

definition float_of_int :: "int \<Rightarrow> pyfloat" where
  "float_of_int n = fl (of_int n)"

definition fadd :: "pyfloat \<Rightarrow> pyfloat \<Rightarrow> pyfloat" where
  "fadd a b = fl (a + b)"

definition fsub :: "pyfloat \<Rightarrow> pyfloat \<Rightarrow> pyfloat" where
  "fsub a b = fl (a - b)"

definition fmul :: "pyfloat \<Rightarrow> pyfloat \<Rightarrow> pyfloat" where
  "fmul a b = fl (a * b)"

definition fdiv :: "pyfloat \<Rightarrow> pyfloat \<Rightarrow> pyfloat" where
  "fdiv a b = fl (a / b)"

text \<open>\<open>a / b\<close> on Python floats raises when the divisor is zero.\<close>

definition truediv :: "pyfloat \<Rightarrow> pyfloat \<Rightarrow> py_error + pyfloat" where
  "truediv a b = (if b = 0 then Inl ZeroDivisionError else Inr (fdiv a b))"

text \<open>
  \<open>round(x, ndigits)\<close> on a float: the exact value of \<open>x\<close> is rounded to \<open>ndigits\<close>
  decimal places, ties to even, and the decimal result is converted back to the nearest
  float.
\<close>

definition py_round :: "pyfloat \<Rightarrow> nat \<Rightarrow> pyfloat" where
  "py_round x ndigits = fl (of_int (round_half_even (x * 10 ^ ndigits)) / 10 ^ ndigits)"

section \<open>\<open>gcp_disk_savings_calculator.py\<close>: price table and savings calculation\<close>

record prices =
  pd_ssd :: pyfloat
  pd_balanced :: pyfloat

definition DISK_PRICES :: "string \<rightharpoonup> prices" where
  "DISK_PRICES = map_of
     [(''us-west1'', \<lparr>pd_ssd = fl (17 / 100), pd_balanced = fl (10 / 100)\<rparr>),
      (''default'', \<lparr>pd_ssd = fl (17 / 100), pd_balanced = fl (10 / 100)\<rparr>)]"

text \<open>
  One element of \<open>disk_data\<close>: the dict built by \<open>get_ssd_disk_data\<close>, which always
  sets these seven keys.
\<close>

record disk =
  Disk_Name :: string
  Disk_Type :: string
  Disk_Size_GB :: int
  Zone :: string
  Region :: string
  Attached_To :: string
  Is_Boot_Disk :: string

text \<open>One element of \<open>savings_data\<close>: the seven keys copied, and five computed ones.\<close>

record savings = disk +
  Current_Monthly_Cost_USD :: pyfloat
  Balanced_Monthly_Cost_USD :: pyfloat
  Monthly_Savings_USD :: pyfloat
  Annual_Savings_USD :: pyfloat
  Savings_Percentage :: pyfloat

text \<open>\<open>DISK_PRICES.get(region, DISK_PRICES['default'])\<close>; the subscript raises on a missing key.\<close>

definition region_prices_of :: "string \<Rightarrow> py_error + prices" where
  "region_prices_of region =
     (case DISK_PRICES ''default'' of
        None \<Rightarrow> Inl KeyError
      | Some dflt \<Rightarrow> Inr (case DISK_PRICES region of Some p \<Rightarrow> p | None \<Rightarrow> dflt))"

text \<open>The four local variables of the loop body (lines 112 to 115).\<close>

definition current_cost :: "int \<Rightarrow> prices \<Rightarrow> pyfloat" where
  "current_cost size_gb region_prices = fmul (float_of_int size_gb) (pd_ssd region_prices)"

definition balanced_cost :: "int \<Rightarrow> prices \<Rightarrow> pyfloat" where
  "balanced_cost size_gb region_prices = fmul (float_of_int size_gb) (pd_balanced region_prices)"

definition monthly_savings :: "int \<Rightarrow> prices \<Rightarrow> pyfloat" where
  "monthly_savings size_gb region_prices =
     fsub (current_cost size_gb region_prices) (balanced_cost size_gb region_prices)"

definition annual_savings :: "int \<Rightarrow> prices \<Rightarrow> pyfloat" where
  "annual_savings size_gb region_prices =
     fmul (monthly_savings size_gb region_prices) (float_of_int 12)"

text \<open>The body of the loop of \<open>calculate_savings\<close>: the record appended for one disk.\<close>

definition savings_of :: "disk \<Rightarrow> py_error + savings" where
  "savings_of d =
     (let region = Region d; size_gb = Disk_Size_GB d
      in case region_prices_of region of
           Inl e \<Rightarrow> Inl e
         | Inr region_prices \<Rightarrow>
             (case truediv (monthly_savings size_gb region_prices)
                           (current_cost size_gb region_prices) of
                Inl e \<Rightarrow> Inl e
              | Inr q \<Rightarrow> Inr
                 \<lparr>Disk_Name = Disk_Name d,
                  Disk_Type = Disk_Type d,
                  Disk_Size_GB = size_gb,
                  Zone = Zone d,
                  Region = region,
                  Attached_To = Attached_To d,
                  Is_Boot_Disk = Is_Boot_Disk d,
                  Current_Monthly_Cost_USD = py_round (current_cost size_gb region_prices) 2,
                  Balanced_Monthly_Cost_USD = py_round (balanced_cost size_gb region_prices) 2,
                  Monthly_Savings_USD = py_round (monthly_savings size_gb region_prices) 2,
                  Annual_Savings_USD = py_round (annual_savings size_gb region_prices) 2,
                  Savings_Percentage = py_round (fmul q (float_of_int 100)) 1\<rparr>))"

text \<open>
  The loop: records are appended in input order; an exception raised in the body is not
  caught and ends the call.
\<close>

fun calculate_savings_loop :: "disk list \<Rightarrow> savings list \<Rightarrow> py_error + savings list" where
  "calculate_savings_loop [] savings_data = Inr savings_data"
| "calculate_savings_loop (d # ds) savings_data =
     (case savings_of d of
        Inl e \<Rightarrow> Inl e
      | Inr r \<Rightarrow> calculate_savings_loop ds (savings_data @ [r]))"

definition calculate_savings :: "disk list \<Rightarrow> py_error + savings list" where
  "calculate_savings disk_data = calculate_savings_loop disk_data []"


section \<open>\<open>gcp_disk_savings_calculator.py\<close>: the report\<close>

text \<open>
  A column sum of the data frame (\<open>df[...].sum()\<close>). A float column is accumulated
  from left to right, starting from zero: this is what the library's summation does for a
  column of fewer than eight elements, and the model does it for every length. The
  integer column of sizes is summed as unbounded integers (no overflow of the 64-bit
  sum is modelled).
\<close>

definition pd_sum :: "pyfloat list \<Rightarrow> pyfloat" where
  "pd_sum xs = foldl fadd 0 xs"

definition total_monthly_savings :: "savings list \<Rightarrow> pyfloat" where
  "total_monthly_savings data = pd_sum (map Monthly_Savings_USD data)"

definition total_annual_savings :: "savings list \<Rightarrow> pyfloat" where
  "total_annual_savings data = pd_sum (map Annual_Savings_USD data)"

definition total_current_cost :: "savings list \<Rightarrow> pyfloat" where
  "total_current_cost data = pd_sum (map Current_Monthly_Cost_USD data)"

definition total_balanced_cost :: "savings list \<Rightarrow> pyfloat" where
  "total_balanced_cost data = pd_sum (map Balanced_Monthly_Cost_USD data)"

definition total_disk_size :: "savings list \<Rightarrow> int" where
  "total_disk_size data = sum_list (map Disk_Size_GB data)"

definition avg_savings_pct :: "savings list \<Rightarrow> pyfloat" where
  "avg_savings_pct data =
     (if 0 < total_current_cost data
      then fmul (fdiv (total_monthly_savings data) (total_current_cost data)) (float_of_int 100)
      else 0)"

text \<open>
  The seven values of \<open>summary_data\<close>; the last one is the number shown before the
  percent sign. The totals are rounded with \<open>py_round\<close>, like the values of a record.
\<close>

record summary =
  Total_Disk_Count :: nat
  Total_Disk_Size_GB :: int
  Current_Monthly_Cost :: pyfloat
  Projected_Monthly_Cost :: pyfloat
  Potential_Monthly_Savings :: pyfloat
  Potential_Annual_Savings :: pyfloat
  Average_Savings_Percentage :: pyfloat

definition summary_data :: "savings list \<Rightarrow> summary" where
  "summary_data data =
     \<lparr>Total_Disk_Count = length data,
      Total_Disk_Size_GB = total_disk_size data,
      Current_Monthly_Cost = py_round (total_current_cost data) 2,
      Projected_Monthly_Cost = py_round (total_balanced_cost data) 2,
      Potential_Monthly_Savings = py_round (total_monthly_savings data) 2,
      Potential_Annual_Savings = py_round (total_annual_savings data) 2,
      Average_Savings_Percentage = py_round (avg_savings_pct data) 1\<rparr>"

text \<open>One row of the detail table: the eleven columns written for a record.\<close>

record detail_row =
  col_Disk_Name :: string
  col_Disk_Size_GB :: int
  col_Is_Boot_Disk :: string
  col_Attached_To :: string
  col_Zone :: string
  col_Region :: string
  col_Current_Monthly_Cost_USD :: pyfloat
  col_Balanced_Monthly_Cost_USD :: pyfloat
  col_Monthly_Savings_USD :: pyfloat
  col_Annual_Savings_USD :: pyfloat
  col_Savings_Percentage :: pyfloat

definition detail_row_of :: "savings \<Rightarrow> detail_row" where
  "detail_row_of r =
     \<lparr>col_Disk_Name = Disk_Name r,
      col_Disk_Size_GB = Disk_Size_GB r,
      col_Is_Boot_Disk = Is_Boot_Disk r,
      col_Attached_To = Attached_To r,
      col_Zone = Zone r,
      col_Region = Region r,
      col_Current_Monthly_Cost_USD = Current_Monthly_Cost_USD r,
      col_Balanced_Monthly_Cost_USD = Balanced_Monthly_Cost_USD r,
      col_Monthly_Savings_USD = Monthly_Savings_USD r,
      col_Annual_Savings_USD = Annual_Savings_USD r,
      col_Savings_Percentage = Savings_Percentage r\<rparr>"

record workbook =
  wb_summary :: summary
  wb_rows :: "detail_row list"

text \<open>
  The outcome of \<open>create_excel_report\<close>: the value returned and the workbook saved, if
  any. On empty \<open>data\<close> the function prints a notice and returns \<open>False\<close> before any
  total is computed.
\<close>

record report_outcome =
  returned :: bool
  saved :: "workbook option"

definition create_excel_report :: "savings list \<Rightarrow> report_outcome" where
  "create_excel_report data =
     (if data = [] then \<lparr>returned = False, saved = None\<rparr>
      else \<lparr>returned = True,
            saved = Some \<lparr>wb_summary = summary_data data,
                          wb_rows = map detail_row_of data\<rparr>\<rparr>)"

section \<open>\<open>gcp_disk_savings_calculator.py\<close>: the collector\<close>

text \<open>Python string operations used by the scripts.\<close>

fun split_on :: "char \<Rightarrow> string \<Rightarrow> string list" where
  "split_on c [] = [[]]"
| "split_on c (x # xs) =
     (if x = c then [] # split_on c xs
      else (case split_on c xs of
              s # ss \<Rightarrow> (x # s) # ss
            | [] \<Rightarrow> [[x]]))"

definition startswith :: "string \<Rightarrow> string \<Rightarrow> bool" where
  "startswith s pre = (take (length pre) s = pre)"

definition endswith :: "string \<Rightarrow> string \<Rightarrow> bool" where
  "endswith s suf = (length suf \<le> length s \<and> drop (length s - length suf) s = suf)"

text \<open>\<open>s[:-k]\<close>: everything but the last \<open>k\<close> characters, empty when \<open>s\<close> is shorter.\<close>

definition slice_to_minus :: "string \<Rightarrow> nat \<Rightarrow> string" where
  "slice_to_minus s k = take (length s - k) s"

text \<open>
  What the compute API returns. \<open>api_sizeGb\<close> holds the outcome of
  \<open>int(disk['sizeGb'])\<close>: the integer, or the error raised on malformed text.
  \<open>api_users\<close> is \<open>None\<close> when the disk has no \<open>users\<close> key. A call of the API either
  raises or returns its items.
\<close>

record api_disk =
  api_name :: string
  api_type :: string
  api_sizeGb :: "py_error + int"
  api_users :: "string list option"

record attached_disk =
  ad_source :: string
  ad_boot :: bool

record compute_api =
  zones_list :: "string list"
  disks_list :: "string \<Rightarrow> py_error + api_disk list"
  instances_get :: "string \<Rightarrow> string \<Rightarrow> py_error + attached_disk list"

text \<open>
  Attachment and boot status: only the first user of the disk is looked at; an error of
  the instance lookup is printed and leaves \<open>is_boot\<close> false.
\<close>

definition attachment_of :: "compute_api \<Rightarrow> string \<Rightarrow> api_disk \<Rightarrow> string \<times> bool" where
  "attachment_of compute zone disk =
     (case api_users disk of
        None \<Rightarrow> (''Not attached'', False)
      | Some [] \<Rightarrow> (''Not attached'', False)
      | Some (user # _) \<Rightarrow>
          (let instance_name = last (split_on CHR ''/'' user)
           in (instance_name,
               (case instances_get compute zone instance_name of
                  Inl e \<Rightarrow> False
                | Inr disks \<Rightarrow>
                    list_ex (\<lambda>a. endswith (ad_source a) (api_name disk) \<and> ad_boot a) disks))))"

text \<open>
  The loop over the disks of one zone. An exception leaves the loop (it is caught and
  printed by the zone's handler); the records appended before it stay in \<open>disk_data\<close>.
\<close>

fun zone_disks_loop ::
  "compute_api \<Rightarrow> string \<Rightarrow> api_disk list \<Rightarrow> disk list \<Rightarrow> disk list" where
  "zone_disks_loop compute zone [] disk_data = disk_data"
| "zone_disks_loop compute zone (disk # disks) disk_data =
     (let disk_name = api_name disk;
          disk_type = last (split_on CHR ''/'' (api_type disk))
      in if disk_type = ''pd-ssd'' then
           (case api_sizeGb disk of
              Inl e \<Rightarrow> disk_data
            | Inr disk_size_gb \<Rightarrow>
                (let region = slice_to_minus zone 2;
                     (attached_to, is_boot) = attachment_of compute zone disk
                 in zone_disks_loop compute zone disks
                      (disk_data @
                       [\<lparr>Disk_Name = disk_name,
                         Disk_Type = disk_type,
                         Disk_Size_GB = disk_size_gb,
                         Zone = zone,
                         Region = region,
                         Attached_To = attached_to,
                         Is_Boot_Disk = (if is_boot then ''Yes'' else ''No'')\<rparr>])))
         else zone_disks_loop compute zone disks disk_data)"

fun zones_loop :: "compute_api \<Rightarrow> string list \<Rightarrow> disk list \<Rightarrow> disk list" where
  "zones_loop compute [] disk_data = disk_data"
| "zones_loop compute (zone # zones) disk_data =
     (case disks_list compute zone of
        Inl e \<Rightarrow> zones_loop compute zones disk_data
      | Inr disks \<Rightarrow> zones_loop compute zones (zone_disks_loop compute zone disks disk_data))"

definition get_ssd_disk_data :: "compute_api \<Rightarrow> disk list" where
  "get_ssd_disk_data compute =
     (let zones = zones_list compute;
          us_west1_zones = filter (\<lambda>zone. startswith zone ''us-west1-'') zones
      in zones_loop compute us_west1_zones [])"

text \<open>\<open>main\<close>: the report is built only when the collector found a disk.\<close>

definition main :: "compute_api \<Rightarrow> py_error + report_outcome option" where
  "main compute =
     (let disk_data = get_ssd_disk_data compute
      in if disk_data \<noteq> [] then
           (case calculate_savings disk_data of
              Inl e \<Rightarrow> Inl e
            | Inr savings_data \<Rightarrow> Inr (Some (create_excel_report savings_data)))
         else Inr None)"

section \<open>\<open>calculate_savings\<close> on a store\<close>

text \<open>
  Python lists and dicts are objects: \<open>disk_data\<close> is a reference to a list of
  references to dicts. The store is the list of all objects, an address is an index into
  it, and a new object is put at the end. \<open>calculate_savings_store\<close> is the function
  with every read and write of an object made explicit; it returns the address of
  \<open>savings_data\<close> and the store after the call. A reference that does not lead to an
  object of the expected kind is a \<open>TypeError\<close>.
\<close>

datatype obj = Disk_Dict disk | Savings_Dict savings | List_Obj "nat list"

type_synonym store = "obj list"

definition deref :: "store \<Rightarrow> nat \<Rightarrow> obj option" where
  "deref s a = (if a < length s then Some (s ! a) else None)"

definition list_append :: "store \<Rightarrow> nat \<Rightarrow> nat \<Rightarrow> py_error + store" where
  "list_append s a x =
     (case deref s a of
        Some (List_Obj xs) \<Rightarrow> Inr (s[a := List_Obj (xs @ [x])])
      | _ \<Rightarrow> Inl TypeError)"

fun calculate_savings_store_loop ::
  "nat list \<Rightarrow> nat \<Rightarrow> store \<Rightarrow> (py_error + nat) \<times> store" where
  "calculate_savings_store_loop [] savings_data s = (Inr savings_data, s)"
| "calculate_savings_store_loop (a # as) savings_data s =
     (case deref s a of
        Some (Disk_Dict d) \<Rightarrow>
          (case savings_of d of
             Inl e \<Rightarrow> (Inl e, s)
           | Inr r \<Rightarrow>
               (let new_dict = length s;
                    s1 = s @ [Savings_Dict r]
                in case list_append s1 savings_data new_dict of
                     Inl e \<Rightarrow> (Inl e, s1)
                   | Inr s2 \<Rightarrow> calculate_savings_store_loop as savings_data s2))
      | _ \<Rightarrow> (Inl TypeError, s))"

definition calculate_savings_store :: "nat \<Rightarrow> store \<Rightarrow> (py_error + nat) \<times> store" where
  "calculate_savings_store disk_data s =
     (let savings_data = length s;
          s1 = s @ [List_Obj []]
      in case deref s1 disk_data of
           Some (List_Obj as) \<Rightarrow> calculate_savings_store_loop as savings_data s1
         | _ \<Rightarrow> (Inl TypeError, s1))"

section \<open>\<open>new_report.py\<close>\<close>

text \<open>
  A cell of the CSV file that is compared with \<open>'No Record'\<close> and converted by
  \<open>float\<close>: the text \<open>No Record\<close>, a number (the value \<open>float\<close> returns), or other
  text on which \<open>float\<close> raises.
\<close>

datatype cell = No_Record | Number pyfloat | Text string

record csv_row =
  csv_VM_Name :: string
  csv_Boot_Disk_Name :: string
  csv_Boot_Disk_Size_GB :: cell
  csv_Additional_Disk_Name :: string
  csv_Additional_Disk_Size_GB :: cell
  csv_Zone :: string

definition to_float :: "cell \<Rightarrow> py_error + pyfloat" where
  "to_float c = (case c of Number x \<Rightarrow> Inr x | _ \<Rightarrow> Inl ValueError)"

text \<open>One element of \<open>disk_data\<close> in \<open>new_report.py\<close>.\<close>

record conversion =
  nr_Disk_Name :: string
  nr_Disk_Size_GB :: pyfloat
  nr_Is_Boot_Disk :: string
  nr_Attached_To :: string
  nr_Zone :: string
  nr_Region :: string
  nr_Current_Monthly_Cost_USD :: pyfloat
  nr_Balanced_Monthly_Cost_USD :: pyfloat
  nr_Monthly_Savings_USD :: pyfloat
  nr_Annual_Savings_USD :: pyfloat
  nr_Savings_Percentage :: pyfloat

definition ssd_cost_per_gb :: pyfloat where
  "ssd_cost_per_gb = fl (17 / 100)"

definition balanced_cost_per_gb :: pyfloat where
  "balanced_cost_per_gb = fl (10 / 100)"

definition savings_percentage :: pyfloat where
  "savings_percentage = fl (412 / 10)"

text \<open>\<open>zone.split('-')[0] + '-' + zone.split('-')[1]\<close>\<close>

definition region_of_zone :: "string \<Rightarrow> py_error + string" where
  "region_of_zone zone =
     (case split_on CHR ''-'' zone of
        a # b # _ \<Rightarrow> Inr (a @ ''-'' @ b)
      | _ \<Rightarrow> Inl IndexError)"

text \<open>The dict appended for a disk of the given size; costs are rounded to one decimal.\<close>

definition conversion_of ::
  "string \<Rightarrow> pyfloat \<Rightarrow> string \<Rightarrow> string \<Rightarrow> string \<Rightarrow> string \<Rightarrow> conversion" where
  "conversion_of disk_name disk_size is_boot_disk attached_to zone region =
     (let current_monthly_cost = py_round (fmul disk_size ssd_cost_per_gb) 1;
          balanced_monthly_cost = py_round (fmul disk_size balanced_cost_per_gb) 1;
          monthly_savings = py_round (fsub current_monthly_cost balanced_monthly_cost) 1;
          annual_savings = py_round (fmul monthly_savings (float_of_int 12)) 1
      in \<lparr>nr_Disk_Name = disk_name,
          nr_Disk_Size_GB = disk_size,
          nr_Is_Boot_Disk = is_boot_disk,
          nr_Attached_To = attached_to,
          nr_Zone = zone,
          nr_Region = region,
          nr_Current_Monthly_Cost_USD = current_monthly_cost,
          nr_Balanced_Monthly_Cost_USD = balanced_monthly_cost,
          nr_Monthly_Savings_USD = monthly_savings,
          nr_Annual_Savings_USD = annual_savings,
          nr_Savings_Percentage = savings_percentage\<rparr>)"

text \<open>
  The first half of the loop body (boot disk). The local variable \<open>zone\<close> is assigned
  here and only here; it is \<open>None\<close> while unassigned.
\<close>

definition process_boot_disk ::
  "csv_row \<Rightarrow> string option \<Rightarrow> conversion list \<Rightarrow> py_error + string option \<times> conversion list" where
  "process_boot_disk row zone_var disk_data =
     (if csv_Boot_Disk_Size_GB row \<noteq> No_Record then
        (case to_float (csv_Boot_Disk_Size_GB row) of
           Inl e \<Rightarrow> Inl e
         | Inr boot_disk_size \<Rightarrow>
             (let zone = csv_Zone row
              in case region_of_zone zone of
                   Inl e \<Rightarrow> Inl e
                 | Inr region \<Rightarrow>
                     Inr (Some zone,
                          disk_data @
                          [conversion_of (csv_Boot_Disk_Name row) boot_disk_size ''Yes''
                             (csv_VM_Name row) zone region])))
      else Inr (zone_var, disk_data))"

text \<open>
  The second half (additional disk). The region is computed from the local variable
  \<open>zone\<close>, whatever row assigned it last; reading it unassigned raises.
\<close>

definition process_additional_disk ::
  "csv_row \<Rightarrow> string option \<Rightarrow> conversion list \<Rightarrow> py_error + conversion list" where
  "process_additional_disk row zone_var disk_data =
     (if csv_Additional_Disk_Name row \<noteq> ''No Record'' then
        (case to_float (csv_Additional_Disk_Size_GB row) of
           Inl e \<Rightarrow> Inl e
         | Inr additional_disk_size \<Rightarrow>
             (case zone_var of
                None \<Rightarrow> Inl NameError
              | Some zone \<Rightarrow>
                  (case region_of_zone zone of
                     Inl e \<Rightarrow> Inl e
                   | Inr region \<Rightarrow>
                       Inr (disk_data @
                            [conversion_of (csv_Additional_Disk_Name row) additional_disk_size
                               ''No'' (csv_VM_Name row) (csv_Zone row) region]))))
      else Inr disk_data)"

fun rows_loop ::
  "csv_row list \<Rightarrow> string option \<Rightarrow> conversion list \<Rightarrow> py_error + conversion list" where
  "rows_loop [] zone_var disk_data = Inr disk_data"
| "rows_loop (row # rows) zone_var disk_data =
     (case process_boot_disk row zone_var disk_data of
        Inl e \<Rightarrow> Inl e
      | Inr (zone_var', disk_data') \<Rightarrow>
          (case process_additional_disk row zone_var' disk_data' of
             Inl e \<Rightarrow> Inl e
           | Inr disk_data'' \<Rightarrow> rows_loop rows zone_var' disk_data''))"

text \<open>The dict returned by \<open>calculate_disk_conversion_savings\<close>.\<close>

record conversion_summary =
  total_disk_count :: nat
  total_disk_size_nr :: pyfloat
  current_monthly_cost :: pyfloat
  balanced_monthly_cost :: pyfloat
  potential_monthly_savings :: pyfloat
  potential_annual_savings :: pyfloat
  avg_savings_percentage :: pyfloat



section \<open>Reference notions used in the statements\<close>

text \<open>The price entry in effect for a region: the value \<open>region_prices_of\<close> returns.\<close>

definition lookup_prices :: "string \<Rightarrow> prices" where
  "lookup_prices region =
     (case DISK_PRICES region of
        Some p \<Rightarrow> p
      | None \<Rightarrow> \<lparr>pd_ssd = fl (17 / 100), pd_balanced = fl (10 / 100)\<rparr>)"

text \<open>
  A string with its last hyphen-separated segment removed: the segments but the last,
  joined by hyphens again.
\<close>

fun join_with :: "char \<Rightarrow> string list \<Rightarrow> string" where
  "join_with c [] = []"
| "join_with c [s] = s"
| "join_with c (s # t # ss) = s @ c # join_with c (t # ss)"

definition without_last_segment :: "string \<Rightarrow> string" where
  "without_last_segment zone = join_with CHR ''-'' (butlast (split_on CHR ''-'' zone))"

text \<open>
  The invariant of the loop of \<open>calculate_savings_store\<close>: the store only grew, the objects that were there before
  the call are untouched, no new object is a disk dict, and \<open>savings_data\<close> lists
  fresh and distinct addresses of the records built so far.
\<close>

definition loop_inv :: "store \<Rightarrow> nat \<Rightarrow> savings list \<Rightarrow> store \<Rightarrow> bool" where
  "loop_inv s0 savings_data rs s =
     (length s0 < length s \<and> take (length s0) s = s0 \<and> savings_data = length s0
      \<and> list_all (\<lambda>x. case x of Disk_Dict d \<Rightarrow> False | _ \<Rightarrow> True) (drop (length s0) s)
      \<and> (\<exists>new. s ! savings_data = List_Obj new \<and> distinct new
            \<and> list_all (\<lambda>a. length s0 < a \<and> a < length s) new
            \<and> map ((!) s) new = map Savings_Dict rs))"

section \<open>Facts about the float model\<close>

text \<open>Unfolding these evaluates a float operation on numerals.\<close>

lemma bits_0: "bits 0 = 0"
  by (simp add: bits.simps)

lemma bits_1: "bits 1 = 1"
  by (simp add: bits.simps)

lemma bits_numeral: "bits (numeral k) = 1 + bits (numeral k div 2)"
  by (subst bits.simps) simp

lemma floor_rat_numeral_div: "\<lfloor>numeral a / numeral b :: rat\<rfloor> = numeral a div numeral b"
  by (metis floor_divide_of_int_eq of_int_numeral)

lemma floor_rat_one_div: "\<lfloor>1 / numeral b :: rat\<rfloor> = 1 div numeral b"
  by (metis floor_divide_of_int_eq of_int_numeral of_int_1)

lemma floor_rat_neg_numeral_div:
  "\<lfloor>- (numeral a / numeral b) :: rat\<rfloor> = - numeral a div numeral b"
  by (metis divide_minus_left floor_divide_of_int_eq of_int_neg_numeral of_int_numeral)

lemmas fl_eval =
  fl_def ilog2_def bits_0 bits_1 bits_numeral pow2_def round_half_even_def Let_def
  floor_rat_numeral_div floor_rat_one_div floor_rat_neg_numeral_div

lemmas float_ops =
  float_of_int_def fadd_def fsub_def fmul_def fdiv_def truediv_def py_round_def

lemma fl_zero: "fl 0 = 0"
  by (simp add: fl_def)

lemma float_of_int_zero: "float_of_int 0 = 0"
  by (simp add: float_of_int_def fl_zero)

lemma fmul_zero_left: "fmul 0 b = 0"
  by (simp add: fmul_def fl_zero)

section \<open>Facts about the price lookup and the loop\<close>

lemma default_entry:
  "DISK_PRICES ''default'' = Some \<lparr>pd_ssd = fl (17 / 100), pd_balanced = fl (10 / 100)\<rparr>"
  by (simp add: DISK_PRICES_def)

lemma region_prices_of_lookup: "region_prices_of region = Inr (lookup_prices region)"
  by (simp add: region_prices_of_def lookup_prices_def default_entry split: option.splits)

lemma region_prices_of_total: "\<exists>p. region_prices_of region = Inr p"
  by (simp add: region_prices_of_lookup)

lemma savings_of_error: "savings_of d = Inl e \<Longrightarrow> e = ZeroDivisionError"
  using region_prices_of_total [of "Region d"]
  by (auto simp: savings_of_def Let_def truediv_def split: sum.splits if_splits)

lemma current_cost_size_zero: "current_cost 0 p = 0"
  by (simp add: current_cost_def float_of_int_zero fmul_zero_left)

lemma savings_of_size_zero:
  "Disk_Size_GB d = 0 \<Longrightarrow> savings_of d = Inl ZeroDivisionError"
  using region_prices_of_total [of "Region d"]
  by (auto simp: savings_of_def Let_def truediv_def current_cost_size_zero)

lemma calculate_savings_loop_error:
  "calculate_savings_loop ds acc = Inl e \<Longrightarrow> e = ZeroDivisionError"
  by (induction ds arbitrary: acc) (auto split: sum.splits dest: savings_of_error)

lemma calculate_savings_loop_zero:
  "d \<in> set ds \<Longrightarrow> Disk_Size_GB d = 0 \<Longrightarrow> calculate_savings_loop ds acc = Inl ZeroDivisionError"
proof (induction ds arbitrary: acc)
  case Nil
  then show ?case by simp
next
  case (Cons x xs)
  show ?case
  proof (cases "savings_of x")
    case (Inl e)
    then show ?thesis using savings_of_error [of x e] by simp
  next
    case (Inr r)
    with Cons.prems have "d \<in> set xs"
      using savings_of_size_zero [of x] by auto
    with Cons Inr show ?thesis by simp
  qed
qed

section \<open>C1: a zero-size disk\<close>

text \<open>
  C1. The specification wants a disk of size 0 to be handled without a fault and to get
  the percentage 0. The code divides \<open>monthly_savings\<close> by \<open>current_cost\<close> with no
  guard: as soon as \<open>disk_data\<close> holds a disk of size 0 the call raises
  \<open>ZeroDivisionError\<close> and returns no record at all.
\<close>

theorem calculate_savings_zero_size_raises:
  "d \<in> set disk_data \<Longrightarrow> Disk_Size_GB d = 0 \<Longrightarrow>
   calculate_savings disk_data = Inl ZeroDivisionError"
  by (simp add: calculate_savings_def calculate_savings_loop_zero)

theorem calculate_savings_zero_size_raises_witness:
  "calculate_savings
     [\<lparr>Disk_Name = ''d3'', Disk_Type = ''pd-ssd'', Disk_Size_GB = 0, Zone = ''us-west1-a'',
       Region = ''us-west1'', Attached_To = ''Not attached'', Is_Boot_Disk = ''No''\<rparr>]
   = Inl ZeroDivisionError"
  using calculate_savings_zero_size_raises
    [of "\<lparr>Disk_Name = ''d3'', Disk_Type = ''pd-ssd'', Disk_Size_GB = 0, Zone = ''us-west1-a'',
          Region = ''us-west1'', Attached_To = ''Not attached'', Is_Boot_Disk = ''No''\<rparr>"
        "[\<lparr>Disk_Name = ''d3'', Disk_Type = ''pd-ssd'', Disk_Size_GB = 0, Zone = ''us-west1-a'',
          Region = ''us-west1'', Attached_To = ''Not attached'', Is_Boot_Disk = ''No''\<rparr>]"]
  by simp

lemma lookup_prices_const:
  "lookup_prices region = \<lparr>pd_ssd = fl (17 / 100), pd_balanced = fl (10 / 100)\<rparr>"
  by (simp add: lookup_prices_def DISK_PRICES_def)

lemma savings_of_unfold:
  "savings_of d =
     (if current_cost (Disk_Size_GB d) (lookup_prices (Region d)) = 0 then Inl ZeroDivisionError
      else Inr
        \<lparr>Disk_Name = Disk_Name d,
         Disk_Type = Disk_Type d,
         Disk_Size_GB = Disk_Size_GB d,
         Zone = Zone d,
         Region = Region d,
         Attached_To = Attached_To d,
         Is_Boot_Disk = Is_Boot_Disk d,
         Current_Monthly_Cost_USD = py_round (current_cost (Disk_Size_GB d) (lookup_prices (Region d))) 2,
         Balanced_Monthly_Cost_USD = py_round (balanced_cost (Disk_Size_GB d) (lookup_prices (Region d))) 2,
         Monthly_Savings_USD = py_round (monthly_savings (Disk_Size_GB d) (lookup_prices (Region d))) 2,
         Annual_Savings_USD = py_round (annual_savings (Disk_Size_GB d) (lookup_prices (Region d))) 2,
         Savings_Percentage =
           py_round (fmul (fdiv (monthly_savings (Disk_Size_GB d) (lookup_prices (Region d)))
                                (current_cost (Disk_Size_GB d) (lookup_prices (Region d))))
                          (float_of_int 100)) 1\<rparr>)"
  by (simp add: savings_of_def Let_def region_prices_of_lookup truediv_def)

lemmas cost_defs = current_cost_def balanced_cost_def monthly_savings_def annual_savings_def

section \<open>C5: region fallback\<close>

text \<open>
  C5. A disk whose region is not a key of \<open>DISK_PRICES\<close> is priced with the
  \<open>default\<close> entry, for the SSD and for the balanced price; the lookup itself cannot
  fail. The record that \<open>calculate_savings\<close> builds for it is the one below (a size
  for which the current cost is zero raises instead). At region \<open>eu-west9\<close> and 100 GB
  the costs are 17.0 and 10.0 and the savings 7.0 and 84.0.
\<close>

theorem region_fallback_uses_default:
  assumes "Region d \<notin> dom DISK_PRICES"
  shows "\<exists>dflt. DISK_PRICES ''default'' = Some dflt
          \<and> region_prices_of (Region d) = Inr dflt
          \<and> savings_of d =
             (if current_cost (Disk_Size_GB d) dflt = 0 then Inl ZeroDivisionError
              else Inr
                \<lparr>Disk_Name = Disk_Name d,
                 Disk_Type = Disk_Type d,
                 Disk_Size_GB = Disk_Size_GB d,
                 Zone = Zone d,
                 Region = Region d,
                 Attached_To = Attached_To d,
                 Is_Boot_Disk = Is_Boot_Disk d,
                 Current_Monthly_Cost_USD = py_round (current_cost (Disk_Size_GB d) dflt) 2,
                 Balanced_Monthly_Cost_USD = py_round (balanced_cost (Disk_Size_GB d) dflt) 2,
                 Monthly_Savings_USD = py_round (monthly_savings (Disk_Size_GB d) dflt) 2,
                 Annual_Savings_USD = py_round (annual_savings (Disk_Size_GB d) dflt) 2,
                 Savings_Percentage =
                   py_round (fmul (fdiv (monthly_savings (Disk_Size_GB d) dflt)
                                        (current_cost (Disk_Size_GB d) dflt))
                                  (float_of_int 100)) 1\<rparr>)"
proof -
  from assms have none: "DISK_PRICES (Region d) = None"
    by (simp add: domIff)
  obtain dflt where dflt: "DISK_PRICES ''default'' = Some dflt"
    using default_entry by blast
  have rp: "region_prices_of (Region d) = Inr dflt"
    by (simp add: region_prices_of_def dflt none)
  then have "lookup_prices (Region d) = dflt"
    by (simp add: region_prices_of_lookup)
  with dflt rp show ?thesis
    by (simp add: savings_of_unfold)
qed

theorem region_fallback_uses_default_witness:
  "''eu-west9'' \<notin> dom DISK_PRICES \<and>
   DISK_PRICES ''default'' = Some \<lparr>pd_ssd = fl (17 / 100), pd_balanced = fl (10 / 100)\<rparr> \<and>
   savings_of
     \<lparr>Disk_Name = ''d1'', Disk_Type = ''pd-ssd'', Disk_Size_GB = 100, Zone = ''eu-west9-a'',
      Region = ''eu-west9'', Attached_To = ''Not attached'', Is_Boot_Disk = ''No''\<rparr>
   = Inr
     \<lparr>Disk_Name = ''d1'', Disk_Type = ''pd-ssd'', Disk_Size_GB = 100, Zone = ''eu-west9-a'',
      Region = ''eu-west9'', Attached_To = ''Not attached'', Is_Boot_Disk = ''No'',
      Current_Monthly_Cost_USD = 17, Balanced_Monthly_Cost_USD = 10,
      Monthly_Savings_USD = 7, Annual_Savings_USD = 84,
      Savings_Percentage = fl (412 / 10)\<rparr>"
proof -
  have absent: "''eu-west9'' \<notin> dom DISK_PRICES"
    by (simp add: DISK_PRICES_def)
  have "Region \<lparr>Disk_Name = ''d1'', Disk_Type = ''pd-ssd'', Disk_Size_GB = 100,
      Zone = ''eu-west9-a'', Region = ''eu-west9'', Attached_To = ''Not attached'',
      Is_Boot_Disk = ''No''\<rparr> \<notin> dom DISK_PRICES"
    using absent by simp
  from region_fallback_uses_default [OF this] absent show ?thesis
    by (simp add: default_entry cost_defs float_ops fl_eval)
qed

section \<open>Facts about \<open>calculate_savings\<close>\<close>

lemma calculate_savings_loop_Inr:
  "calculate_savings_loop ds acc = Inr rs \<Longrightarrow>
   \<exists>new. rs = acc @ new \<and> list_all2 (\<lambda>d r. savings_of d = Inr r) ds new"
proof (induction ds arbitrary: acc)
  case Nil
  then show ?case by simp
next
  case (Cons d ds)
  from Cons.prems obtain r where r: "savings_of d = Inr r"
    and rest: "calculate_savings_loop ds (acc @ [r]) = Inr rs"
    by (auto split: sum.splits)
  from Cons.IH [OF rest] obtain new where
    "rs = (acc @ [r]) @ new" "list_all2 (\<lambda>d r. savings_of d = Inr r) ds new"
    by blast
  with r have "rs = acc @ (r # new) \<and> list_all2 (\<lambda>d r. savings_of d = Inr r) (d # ds) (r # new)"
    by simp
  then show ?case by blast
qed

lemma calculate_savings_Inr:
  "calculate_savings ds = Inr rs \<Longrightarrow> list_all2 (\<lambda>d r. savings_of d = Inr r) ds rs"
  using calculate_savings_loop_Inr [of ds "[]" rs] by (simp add: calculate_savings_def)

lemma savings_of_fields:
  assumes "savings_of d = Inr r"
  shows "Current_Monthly_Cost_USD r
           = py_round (current_cost (Disk_Size_GB d) (lookup_prices (Region d))) 2"
    and "Balanced_Monthly_Cost_USD r
           = py_round (balanced_cost (Disk_Size_GB d) (lookup_prices (Region d))) 2"
    and "Monthly_Savings_USD r
           = py_round (monthly_savings (Disk_Size_GB d) (lookup_prices (Region d))) 2"
    and "Annual_Savings_USD r
           = py_round (annual_savings (Disk_Size_GB d) (lookup_prices (Region d))) 2"
    and "Disk_Type r = Disk_Type d"
    and "Disk_Size_GB r = Disk_Size_GB d"
    and "Zone r = Zone d"
    and "Region r = Region d"
  using assms by (auto simp: savings_of_unfold split: if_splits)

lemma list_all2_map_eq:
  "list_all2 (\<lambda>d r. savings_of d = Inr r) ds rs \<Longrightarrow>
   (\<And>d r. savings_of d = Inr r \<Longrightarrow> f r = g d) \<Longrightarrow> map f rs = map g ds"
  by (induction ds rs rule: list_all2_induct) auto

lemma savings_of_15:
  "savings_of
     \<lparr>Disk_Name = ''d15'', Disk_Type = ''pd-ssd'', Disk_Size_GB = 15, Zone = ''us-west1-a'',
      Region = ''us-west1'', Attached_To = ''Not attached'', Is_Boot_Disk = ''No''\<rparr>
   = Inr
     \<lparr>Disk_Name = ''d15'', Disk_Type = ''pd-ssd'', Disk_Size_GB = 15, Zone = ''us-west1-a'',
      Region = ''us-west1'', Attached_To = ''Not attached'', Is_Boot_Disk = ''No'',
      Current_Monthly_Cost_USD = fl (255 / 100), Balanced_Monthly_Cost_USD = fl (15 / 10),
      Monthly_Savings_USD = fl (105 / 100), Annual_Savings_USD = fl (126 / 10),
      Savings_Percentage = fl (412 / 10)\<rparr>"
  by (simp add: savings_of_unfold lookup_prices_const cost_defs float_ops fl_eval)

section \<open>C4: the savings relations\<close>

text \<open>
  C4 (as amended). For every disk on which the loop body returns a record, the local
  values satisfy \<open>monthly_savings = current_cost - balanced_cost\<close> and
  \<open>annual_savings = monthly_savings * 12\<close> exactly, in float arithmetic. Each of the
  four emitted fields is the corresponding local value rounded to two decimals, every
  one rounded on its own: the emitted monthly saving is the rounded difference of the
  unrounded costs, not the difference of the emitted costs.
\<close>

theorem savings_fields_rounded_independently:
  assumes "savings_of d = Inr r"
  shows "monthly_savings (Disk_Size_GB d) (lookup_prices (Region d))
           = fsub (current_cost (Disk_Size_GB d) (lookup_prices (Region d)))
                  (balanced_cost (Disk_Size_GB d) (lookup_prices (Region d)))
       \<and> annual_savings (Disk_Size_GB d) (lookup_prices (Region d))
           = fmul (monthly_savings (Disk_Size_GB d) (lookup_prices (Region d))) (float_of_int 12)
       \<and> Current_Monthly_Cost_USD r
           = py_round (current_cost (Disk_Size_GB d) (lookup_prices (Region d))) 2
       \<and> Balanced_Monthly_Cost_USD r
           = py_round (balanced_cost (Disk_Size_GB d) (lookup_prices (Region d))) 2
       \<and> Monthly_Savings_USD r
           = py_round (monthly_savings (Disk_Size_GB d) (lookup_prices (Region d))) 2
       \<and> Annual_Savings_USD r
           = py_round (annual_savings (Disk_Size_GB d) (lookup_prices (Region d))) 2"
  using savings_of_fields [OF assms]
  by (simp add: monthly_savings_def annual_savings_def)

text \<open>
  C4 as stated fails for the emitted fields. For a 15 GB disk the record holds 2.55, 1.5,
  1.05 and 12.6, but \<open>2.55 - 1.5\<close> is not the float 1.05 and \<open>1.05 * 12\<close> is not the
  float 12.6, neither in float arithmetic nor as exact numbers.
\<close>

theorem emitted_fields_counterexample:
  "savings_of
     \<lparr>Disk_Name = ''d15'', Disk_Type = ''pd-ssd'', Disk_Size_GB = 15, Zone = ''us-west1-a'',
      Region = ''us-west1'', Attached_To = ''Not attached'', Is_Boot_Disk = ''No''\<rparr>
   = Inr
     \<lparr>Disk_Name = ''d15'', Disk_Type = ''pd-ssd'', Disk_Size_GB = 15, Zone = ''us-west1-a'',
      Region = ''us-west1'', Attached_To = ''Not attached'', Is_Boot_Disk = ''No'',
      Current_Monthly_Cost_USD = fl (255 / 100), Balanced_Monthly_Cost_USD = fl (15 / 10),
      Monthly_Savings_USD = fl (105 / 100), Annual_Savings_USD = fl (126 / 10),
      Savings_Percentage = fl (412 / 10)\<rparr>
   \<and> fl (105 / 100) \<noteq> fsub (fl (255 / 100)) (fl (15 / 10))
   \<and> fl (105 / 100) \<noteq> fl (255 / 100) - fl (15 / 10)
   \<and> fl (126 / 10) \<noteq> fmul (fl (105 / 100)) (float_of_int 12)
   \<and> fl (126 / 10) \<noteq> fl (105 / 100) * 12"
  using savings_of_15 by (simp add: float_ops fl_eval)

theorem savings_fields_rounded_independently_witness:
  "savings_of
     \<lparr>Disk_Name = ''d15'', Disk_Type = ''pd-ssd'', Disk_Size_GB = 15, Zone = ''us-west1-a'',
      Region = ''us-west1'', Attached_To = ''Not attached'', Is_Boot_Disk = ''No''\<rparr>
   = Inr
     \<lparr>Disk_Name = ''d15'', Disk_Type = ''pd-ssd'', Disk_Size_GB = 15, Zone = ''us-west1-a'',
      Region = ''us-west1'', Attached_To = ''Not attached'', Is_Boot_Disk = ''No'',
      Current_Monthly_Cost_USD = fl (255 / 100), Balanced_Monthly_Cost_USD = fl (15 / 10),
      Monthly_Savings_USD = fl (105 / 100), Annual_Savings_USD = fl (126 / 10),
      Savings_Percentage = fl (412 / 10)\<rparr>
   \<and> fl (255 / 100) = py_round (current_cost 15 (lookup_prices ''us-west1'')) 2
   \<and> fl (15 / 10) = py_round (balanced_cost 15 (lookup_prices ''us-west1'')) 2
   \<and> fl (105 / 100)
       = py_round (fsub (current_cost 15 (lookup_prices ''us-west1''))
                        (balanced_cost 15 (lookup_prices ''us-west1''))) 2
   \<and> fl (126 / 10)
       = py_round (fmul (fsub (current_cost 15 (lookup_prices ''us-west1''))
                              (balanced_cost 15 (lookup_prices ''us-west1'')))
                        (float_of_int 12)) 2"
  using savings_fields_rounded_independently [OF savings_of_15] savings_of_15
  by (simp add: monthly_savings_def annual_savings_def)

section \<open>C3: where the rounding happens\<close>





section \<open>C6: the empty input\<close>

text \<open>
  C6 (as amended). On an empty list \<open>create_excel_report\<close> raises no fault, returns
  \<open>False\<close> and saves no workbook: it leaves before any total is computed, so there is no
  summary at all, not a summary of zeros.
\<close>

theorem create_excel_report_empty:
  "create_excel_report [] = \<lparr>returned = False, saved = None\<rparr>"
  by (simp add: create_excel_report_def)

text \<open>C6 as stated fails: the empty input does not yield the all-zero summary.\<close>

theorem empty_summary_counterexample:
  "map_option wb_summary (saved (create_excel_report []))
   \<noteq> Some \<lparr>Total_Disk_Count = 0, Total_Disk_Size_GB = 0, Current_Monthly_Cost = 0,
            Projected_Monthly_Cost = 0, Potential_Monthly_Savings = 0,
            Potential_Annual_Savings = 0, Average_Savings_Percentage = 0\<rparr>"
  by (simp add: create_excel_report_def)

text \<open>\<open>main\<close> does not even call the report when the collector found no disk.\<close>

lemma main_no_disks: "get_ssd_disk_data compute = [] \<Longrightarrow> main compute = Inr None"
  by (simp add: main_def)

section \<open>C7: reordering the input\<close>






lemma calculate_savings_large:
  "calculate_savings
     [\<lparr>Disk_Name = ''d1'', Disk_Type = ''pd-ssd'', Disk_Size_GB = 10 ^ 17, Zone = ''us-west1-a'',
       Region = ''us-west1'', Attached_To = ''Not attached'', Is_Boot_Disk = ''No''\<rparr>,
      \<lparr>Disk_Name = ''d2'', Disk_Type = ''pd-ssd'', Disk_Size_GB = 3, Zone = ''us-west1-a'',
       Region = ''us-west1'', Attached_To = ''Not attached'', Is_Boot_Disk = ''No''\<rparr>,
      \<lparr>Disk_Name = ''d3'', Disk_Type = ''pd-ssd'', Disk_Size_GB = 3, Zone = ''us-west1-a'',
       Region = ''us-west1'', Attached_To = ''Not attached'', Is_Boot_Disk = ''No''\<rparr>]
   = Inr
     [\<lparr>Disk_Name = ''d1'', Disk_Type = ''pd-ssd'', Disk_Size_GB = 10 ^ 17, Zone = ''us-west1-a'',
       Region = ''us-west1'', Attached_To = ''Not attached'', Is_Boot_Disk = ''No'',
       Current_Monthly_Cost_USD = 17000000000000002, Balanced_Monthly_Cost_USD = 10000000000000000,
       Monthly_Savings_USD = 7000000000000002, Annual_Savings_USD = 84000000000000032,
       Savings_Percentage = fl (412 / 10)\<rparr>,
      \<lparr>Disk_Name = ''d2'', Disk_Type = ''pd-ssd'', Disk_Size_GB = 3, Zone = ''us-west1-a'',
       Region = ''us-west1'', Attached_To = ''Not attached'', Is_Boot_Disk = ''No'',
       Current_Monthly_Cost_USD = fl (51 / 100), Balanced_Monthly_Cost_USD = fl (3 / 10),
       Monthly_Savings_USD = fl (21 / 100), Annual_Savings_USD = fl (252 / 100),
       Savings_Percentage = fl (412 / 10)\<rparr>,
      \<lparr>Disk_Name = ''d3'', Disk_Type = ''pd-ssd'', Disk_Size_GB = 3, Zone = ''us-west1-a'',
       Region = ''us-west1'', Attached_To = ''Not attached'', Is_Boot_Disk = ''No'',
       Current_Monthly_Cost_USD = fl (51 / 100), Balanced_Monthly_Cost_USD = fl (3 / 10),
       Monthly_Savings_USD = fl (21 / 100), Annual_Savings_USD = fl (252 / 100),
       Savings_Percentage = fl (412 / 10)\<rparr>]"
  by (simp add: calculate_savings_def savings_of_unfold lookup_prices_const cost_defs
      float_ops fl_eval)

section \<open>C2: the aggregate percentage\<close>






lemma region_of_us_west1_a: "region_of_zone ''us-west1-a'' = Inr ''us-west1''"
  by (simp add: region_of_zone_def)

lemma rows_loop_1:
  "rows_loop
     [\<lparr>csv_VM_Name = ''vm1'', csv_Boot_Disk_Name = ''vm1-boot'',
       csv_Boot_Disk_Size_GB = Number 1, csv_Additional_Disk_Name = ''No Record'',
       csv_Additional_Disk_Size_GB = No_Record, csv_Zone = ''us-west1-a''\<rparr>] None []
   = Inr [conversion_of ''vm1-boot'' 1 ''Yes'' ''vm1'' ''us-west1-a'' ''us-west1'']"
  by (simp add: process_boot_disk_def process_additional_disk_def to_float_def Let_def
      region_of_us_west1_a)







section \<open>Facts about splitting and joining\<close>

lemma split_on_not_Nil: "split_on c s \<noteq> []"
  by (induction s) (auto split: list.splits)

lemma join_with_Cons:
  "ss \<noteq> [] \<Longrightarrow> join_with c (s # ss) = s @ c # join_with c ss"
  by (cases ss) auto

lemma join_split: "join_with c (split_on c s) = s"
proof (induction s)
  case Nil
  show ?case by simp
next
  case (Cons x xs)
  obtain t ts where ts: "split_on c xs = t # ts"
    using split_on_not_Nil [of c xs] by (cases "split_on c xs") auto
  show ?case
  proof (cases "x = c")
    case True
    then show ?thesis
      using Cons.IH by (simp add: join_with_Cons split_on_not_Nil)
  next
    case False
    show ?thesis
    proof (cases ts)
      case Nil
      with False ts Cons.IH show ?thesis by simp
    next
      case (Cons u us)
      with False ts Cons.IH show ?thesis by simp
    qed
  qed
qed

lemma join_with_snoc:
  "ss \<noteq> [] \<Longrightarrow> join_with c (ss @ [l]) = join_with c ss @ c # l"
proof (induction ss)
  case Nil
  then show ?case by simp
next
  case (Cons s ss)
  show ?case
  proof (cases ss)
    case Nil
    then show ?thesis by simp
  next
    case (Cons t ts)
    with Cons.IH show ?thesis
      by (simp add: join_with_Cons)
  qed
qed

lemma split_decompose:
  assumes "butlast (split_on c s) \<noteq> []"
  shows "s = join_with c (butlast (split_on c s)) @ c # last (split_on c s)"
proof -
  have "split_on c s = butlast (split_on c s) @ [last (split_on c s)]"
    using split_on_not_Nil by simp
  then have "join_with c (split_on c s)
      = join_with c (butlast (split_on c s)) @ c # last (split_on c s)"
    using join_with_snoc [OF assms] by metis
  then show ?thesis
    by (simp add: join_split)
qed

lemma slice_drops_one_letter_segment:
  assumes "length (last (split_on CHR ''-'' zone)) = 1"
  shows "slice_to_minus zone 2 = without_last_segment zone"
proof (cases "butlast (split_on CHR ''-'' zone) = []")
  case True
  then have "split_on CHR ''-'' zone = [last (split_on CHR ''-'' zone)]"
    using split_on_not_Nil [of "CHR ''-''" zone]
    by (metis append_butlast_last_id append_Nil)
  then have "join_with CHR ''-'' (split_on CHR ''-'' zone) = last (split_on CHR ''-'' zone)"
    by (metis join_with.simps(2))
  then have "zone = last (split_on CHR ''-'' zone)"
    by (simp add: join_split)
  with assms have "length zone = 1"
    by simp
  with True show ?thesis
    by (simp add: slice_to_minus_def without_last_segment_def)
next
  case False
  from split_decompose [OF False]
  have z: "zone = join_with CHR ''-'' (butlast (split_on CHR ''-'' zone))
                 @ CHR ''-'' # last (split_on CHR ''-'' zone)" .
  have "length zone = length (join_with CHR ''-'' (butlast (split_on CHR ''-'' zone))) + 2"
    by (subst z) (simp add: assms)
  then have "take (length zone - 2) zone
      = take (length (join_with CHR ''-'' (butlast (split_on CHR ''-'' zone))))
          (join_with CHR ''-'' (butlast (split_on CHR ''-'' zone))
           @ CHR ''-'' # last (split_on CHR ''-'' zone))"
    using z by simp
  then show ?thesis
    by (simp add: slice_to_minus_def without_last_segment_def)
qed

lemma region_of_three_segments:
  assumes "length (split_on CHR ''-'' zone) = 3"
  shows "region_of_zone zone = Inr (without_last_segment zone)"
proof -
  from assms obtain a b c where "split_on CHR ''-'' zone = [a, b, c]"
    by (auto simp: length_Suc_conv numeral_3_eq_3)
  then show ?thesis
    by (simp add: region_of_zone_def without_last_segment_def)
qed

section \<open>Facts about the collector\<close>

lemma zone_disks_loop_inv:
  assumes "\<forall>r \<in> set disk_data. P r"
    and "\<And>n s a b. P \<lparr>Disk_Name = n, Disk_Type = ''pd-ssd'', Disk_Size_GB = s, Zone = zone,
            Region = slice_to_minus zone 2, Attached_To = a, Is_Boot_Disk = b\<rparr>"
  shows "\<forall>r \<in> set (zone_disks_loop compute zone disks disk_data). P r"
  using assms(1)
proof (induction disks arbitrary: disk_data)
  case Nil
  then show ?case by simp
next
  case (Cons disk disks)
  show ?case
  proof (cases "last (split_on CHR ''/'' (api_type disk)) = ''pd-ssd''")
    case False
    with Cons show ?thesis by (simp add: Let_def)
  next
    case True
    show ?thesis
    proof (cases "api_sizeGb disk")
      case (Inl e)
      with True Cons.prems show ?thesis by (simp add: Let_def)
    next
      case (Inr n)
      obtain a b where ab: "attachment_of compute zone disk = (a, b)"
        by (cases "attachment_of compute zone disk")
      have "\<forall>r \<in> set (disk_data @
              [\<lparr>Disk_Name = api_name disk, Disk_Type = ''pd-ssd'', Disk_Size_GB = n,
                Zone = zone, Region = slice_to_minus zone 2, Attached_To = a,
                Is_Boot_Disk = (if b then ''Yes'' else ''No'')\<rparr>]). P r"
        using Cons.prems assms(2) by auto
      from Cons.IH [OF this] True Inr ab show ?thesis
        by (simp add: Let_def)
    qed
  qed
qed

lemma zones_loop_inv:
  assumes "\<forall>r \<in> set disk_data. P r"
    and "\<And>zone n s a b. zone \<in> set zones \<Longrightarrow>
           P \<lparr>Disk_Name = n, Disk_Type = ''pd-ssd'', Disk_Size_GB = s, Zone = zone,
              Region = slice_to_minus zone 2, Attached_To = a, Is_Boot_Disk = b\<rparr>"
  shows "\<forall>r \<in> set (zones_loop compute zones disk_data). P r"
  using assms
proof (induction zones arbitrary: disk_data)
  case Nil
  then show ?case by simp
next
  case (Cons zone zones)
  show ?case
  proof (cases "disks_list compute zone")
    case (Inl e)
    with Cons show ?thesis by simp
  next
    case (Inr disks)
    have "\<forall>r \<in> set (zone_disks_loop compute zone disks disk_data). P r"
      by (rule zone_disks_loop_inv) (use Cons.prems in auto)
    from Cons.IH [OF this] Cons.prems(2) Inr show ?thesis
      by simp
  qed
qed

lemma get_ssd_disk_data_inv:
  assumes "\<And>zone n s a b. startswith zone ''us-west1-'' \<Longrightarrow>
           P \<lparr>Disk_Name = n, Disk_Type = ''pd-ssd'', Disk_Size_GB = s, Zone = zone,
              Region = slice_to_minus zone 2, Attached_To = a, Is_Boot_Disk = b\<rparr>"
  shows "\<forall>r \<in> set (get_ssd_disk_data compute). P r"
  unfolding get_ssd_disk_data_def Let_def
  by (rule zones_loop_inv) (use assms in auto)

lemma collector_records:
  "\<forall>r \<in> set (get_ssd_disk_data compute).
     Disk_Type r = ''pd-ssd'' \<and> Region r = slice_to_minus (Zone r) 2
     \<and> startswith (Zone r) ''us-west1-''"
  by (rule get_ssd_disk_data_inv) simp

lemma rows_loop_boot_inv:
  assumes "rows_loop rows zone_var disk_data = Inr out"
    and "\<forall>r \<in> set disk_data.
           nr_Is_Boot_Disk r = ''Yes'' \<longrightarrow> region_of_zone (nr_Zone r) = Inr (nr_Region r)"
  shows "\<forall>r \<in> set out.
           nr_Is_Boot_Disk r = ''Yes'' \<longrightarrow> region_of_zone (nr_Zone r) = Inr (nr_Region r)"
  using assms
proof (induction rows arbitrary: zone_var disk_data)
  case Nil
  then show ?case by simp
next
  case (Cons row rows)
  from Cons.prems(1) obtain zv dd where
    boot: "process_boot_disk row zone_var disk_data = Inr (zv, dd)"
    by (auto split: sum.splits)
  with Cons.prems(1) obtain dd' where
    add: "process_additional_disk row zv dd = Inr dd'"
    and rest: "rows_loop rows zv dd' = Inr out"
    by (auto split: sum.splits)
  have "\<forall>r \<in> set dd.
           nr_Is_Boot_Disk r = ''Yes'' \<longrightarrow> region_of_zone (nr_Zone r) = Inr (nr_Region r)"
    using boot Cons.prems(2)
    by (auto simp: process_boot_disk_def conversion_of_def Let_def
        split: if_splits sum.splits)
  then have "\<forall>r \<in> set dd'.
           nr_Is_Boot_Disk r = ''Yes'' \<longrightarrow> region_of_zone (nr_Zone r) = Inr (nr_Region r)"
    using add
    by (auto simp: process_additional_disk_def conversion_of_def Let_def
        split: if_splits sum.splits option.splits)
  from Cons.IH [OF rest this] show ?case .
qed

section \<open>C8: the region of a zone\<close>

text \<open>
  C8 (as amended). Every record of the collector has \<open>region = zone[:-2]\<close>; this is the
  zone without its last hyphen-separated segment whenever that segment is a single
  character, whatever the number of segments. In \<open>new_report.py\<close> the region is the
  first two segments of a zone joined by a hyphen, which is the zone without its last
  segment when the zone has exactly three segments; the records of boot disks carry
  the region of their own zone.
\<close>

theorem region_of_zone_by_design:
  "(\<forall>r \<in> set (get_ssd_disk_data compute).
      Region r = slice_to_minus (Zone r) 2
      \<and> (length (last (split_on CHR ''-'' (Zone r))) = 1 \<longrightarrow>
           Region r = without_last_segment (Zone r)))
   \<and> (length (split_on CHR ''-'' zone) = 3 \<longrightarrow>
        region_of_zone zone = Inr (without_last_segment zone))
   \<and> (\<forall>out. rows_loop rows None [] = Inr out \<longrightarrow>
        (\<forall>r \<in> set out. nr_Is_Boot_Disk r = ''Yes'' \<longrightarrow>
           region_of_zone (nr_Zone r) = Inr (nr_Region r)))"
proof (intro conjI)
  show "\<forall>r \<in> set (get_ssd_disk_data compute).
      Region r = slice_to_minus (Zone r) 2
      \<and> (length (last (split_on CHR ''-'' (Zone r))) = 1 \<longrightarrow>
           Region r = without_last_segment (Zone r))"
    using collector_records [of compute] slice_drops_one_letter_segment by auto
  show "length (split_on CHR ''-'' zone) = 3 \<longrightarrow>
        region_of_zone zone = Inr (without_last_segment zone)"
    using region_of_three_segments by blast
  show "\<forall>out. rows_loop rows None [] = Inr out \<longrightarrow>
        (\<forall>r \<in> set out. nr_Is_Boot_Disk r = ''Yes'' \<longrightarrow>
           region_of_zone (nr_Zone r) = Inr (nr_Region r))"
    using rows_loop_boot_inv [of rows None "[]"] by simp
qed


lemma last_segment_of_type:
  "last (split_on CHR ''/'' ''projects/p/zones/us-west1-a/diskTypes/pd-ssd'') = ''pd-ssd''"
  "last (split_on CHR ''/'' ''projects/p/zones/us-west1-a/diskTypes/pd-standard'') = ''pd-standard''"
  by simp_all

lemma get_ssd_disk_data_example:
  "get_ssd_disk_data
     \<lparr>zones_list = [''us-central1-a'', ''us-west1-a''],
      disks_list = (\<lambda>zone. Inr
        [\<lparr>api_name = ''disk-1'',
          api_type = ''projects/p/zones/us-west1-a/diskTypes/pd-ssd'',
          api_sizeGb = Inr 100, api_users = None\<rparr>,
         \<lparr>api_name = ''disk-2'',
          api_type = ''projects/p/zones/us-west1-a/diskTypes/pd-standard'',
          api_sizeGb = Inr 50, api_users = None\<rparr>]),
      instances_get = (\<lambda>zone instance. Inl KeyError)\<rparr>
   = [\<lparr>Disk_Name = ''disk-1'', Disk_Type = ''pd-ssd'', Disk_Size_GB = 100,
       Zone = ''us-west1-a'', Region = ''us-west1'', Attached_To = ''Not attached'',
       Is_Boot_Disk = ''No''\<rparr>]"
  by (simp add: get_ssd_disk_data_def startswith_def last_segment_of_type Let_def
      attachment_of_def slice_to_minus_def)

lemma rows_loop_zone_region:
  "map_sum id (map (\<lambda>r. (nr_Is_Boot_Disk r, nr_Zone r, nr_Region r)))
     (rows_loop
       [\<lparr>csv_VM_Name = ''vm1'', csv_Boot_Disk_Name = ''vm1-boot'',
         csv_Boot_Disk_Size_GB = Number 1, csv_Additional_Disk_Name = ''No Record'',
         csv_Additional_Disk_Size_GB = No_Record, csv_Zone = ''us-west1-a''\<rparr>] None [])
   = Inr [(''Yes'', ''us-west1-a'', ''us-west1'')]"
  unfolding rows_loop_1 by (simp add: conversion_of_def Let_def)

theorem region_of_zone_by_design_witness:
  "map (\<lambda>r. (Zone r, Region r, without_last_segment (Zone r)))
     (get_ssd_disk_data
       \<lparr>zones_list = [''us-central1-a'', ''us-west1-a''],
        disks_list = (\<lambda>zone. Inr
          [\<lparr>api_name = ''disk-1'',
            api_type = ''projects/p/zones/us-west1-a/diskTypes/pd-ssd'',
            api_sizeGb = Inr 100, api_users = None\<rparr>,
           \<lparr>api_name = ''disk-2'',
            api_type = ''projects/p/zones/us-west1-a/diskTypes/pd-standard'',
            api_sizeGb = Inr 50, api_users = None\<rparr>]),
        instances_get = (\<lambda>zone instance. Inl KeyError)\<rparr>)
   = [(''us-west1-a'', ''us-west1'', ''us-west1'')]
   \<and> length (split_on CHR ''-'' ''us-west1-a'') = 3
   \<and> region_of_zone ''us-west1-a'' = Inr (without_last_segment ''us-west1-a'')
   \<and> map_sum id (map (\<lambda>r. (nr_Is_Boot_Disk r, nr_Zone r, nr_Region r)))
       (rows_loop
         [\<lparr>csv_VM_Name = ''vm1'', csv_Boot_Disk_Name = ''vm1-boot'',
           csv_Boot_Disk_Size_GB = Number 1, csv_Additional_Disk_Name = ''No Record'',
           csv_Additional_Disk_Size_GB = No_Record, csv_Zone = ''us-west1-a''\<rparr>] None [])
     = Inr [(''Yes'', ''us-west1-a'', ''us-west1'')]"
proof -
  have three: "length (split_on CHR ''-'' ''us-west1-a'') = 3"
    by simp
  have one: "length (last (split_on CHR ''-'' ''us-west1-a'')) = 1"
    by simp
  note inst = region_of_zone_by_design
    [of "\<lparr>zones_list = [''us-central1-a'', ''us-west1-a''],
        disks_list = (\<lambda>zone. Inr
          [\<lparr>api_name = ''disk-1'',
            api_type = ''projects/p/zones/us-west1-a/diskTypes/pd-ssd'',
            api_sizeGb = Inr 100, api_users = None\<rparr>,
           \<lparr>api_name = ''disk-2'',
            api_type = ''projects/p/zones/us-west1-a/diskTypes/pd-standard'',
            api_sizeGb = Inr 50, api_users = None\<rparr>]),
        instances_get = (\<lambda>zone instance. Inl KeyError)\<rparr>"
        "''us-west1-a''"
        "[\<lparr>csv_VM_Name = ''vm1'', csv_Boot_Disk_Name = ''vm1-boot'',
           csv_Boot_Disk_Size_GB = Number 1, csv_Additional_Disk_Name = ''No Record'',
           csv_Additional_Disk_Size_GB = No_Record, csv_Zone = ''us-west1-a''\<rparr>]"]
  from inst have "\<forall>r \<in> set
      [\<lparr>Disk_Name = ''disk-1'', Disk_Type = ''pd-ssd'', Disk_Size_GB = 100,
        Zone = ''us-west1-a'', Region = ''us-west1'', Attached_To = ''Not attached'',
        Is_Boot_Disk = ''No''\<rparr>].
      length (last (split_on CHR ''-'' (Zone r))) = 1 \<longrightarrow>
      Region r = without_last_segment (Zone r)"
    unfolding get_ssd_disk_data_example by blast
  with one have b: "without_last_segment ''us-west1-a'' = ''us-west1''"
    by simp
  from inst three
  have c: "region_of_zone ''us-west1-a'' = Inr (without_last_segment ''us-west1-a'')"
    by blast
  show ?thesis
    unfolding get_ssd_disk_data_example
    using b c three rows_loop_zone_region by simp
qed

text \<open>
  C8 as stated fails. For a zone whose last segment has two characters the collector
  still drops two characters only and keeps the hyphen: zone \<open>us-west1-ab\<close> gets the
  region \<open>us-west1-\<close>. In \<open>new_report.py\<close> a zone of four segments loses two of them:
  zone \<open>us-west1-ai-a\<close> gets the region \<open>us-west1\<close>.
\<close>

theorem region_of_zone_counterexample:
  "get_ssd_disk_data
     \<lparr>zones_list = [''us-west1-ab''],
      disks_list = (\<lambda>zone. Inr
        [\<lparr>api_name = ''disk-1'',
          api_type = ''projects/p/zones/us-west1-a/diskTypes/pd-ssd'',
          api_sizeGb = Inr 100, api_users = None\<rparr>]),
      instances_get = (\<lambda>zone instance. Inl KeyError)\<rparr>
   = [\<lparr>Disk_Name = ''disk-1'', Disk_Type = ''pd-ssd'', Disk_Size_GB = 100,
       Zone = ''us-west1-ab'', Region = ''us-west1-'', Attached_To = ''Not attached'',
       Is_Boot_Disk = ''No''\<rparr>]
   \<and> without_last_segment ''us-west1-ab'' = ''us-west1''
   \<and> map_sum id (map (\<lambda>r. (nr_Zone r, nr_Region r)))
       (rows_loop
         [\<lparr>csv_VM_Name = ''vm1'', csv_Boot_Disk_Name = ''vm1-boot'',
           csv_Boot_Disk_Size_GB = Number 1, csv_Additional_Disk_Name = ''No Record'',
           csv_Additional_Disk_Size_GB = No_Record, csv_Zone = ''us-west1-ai-a''\<rparr>] None [])
     = Inr [(''us-west1-ai-a'', ''us-west1'')]
   \<and> without_last_segment ''us-west1-ai-a'' = ''us-west1-ai''"
  by (simp add: get_ssd_disk_data_def startswith_def last_segment_of_type Let_def
      attachment_of_def slice_to_minus_def without_last_segment_def
      process_boot_disk_def process_additional_disk_def to_float_def region_of_zone_def
      conversion_of_def)

section \<open>C9: only SSD disks\<close>

lemma current_cost_100: "current_cost 100 (lookup_prices region) = 17"
  by (simp add: lookup_prices_const current_cost_def float_ops fl_eval)

text \<open>
  C9. The collector keeps a disk only if the last path segment of its type is
  \<open>pd-ssd\<close>, and \<open>calculate_savings\<close> copies the type: every record that the collector
  hands to \<open>calculate_savings\<close>, and every record that comes back and goes into the
  report, has the disk type \<open>pd-ssd\<close>.
\<close>

theorem only_ssd_disks_reach_report:
  "(\<forall>d \<in> set (get_ssd_disk_data compute). Disk_Type d = ''pd-ssd'')
   \<and> (\<forall>savings_data. calculate_savings (get_ssd_disk_data compute) = Inr savings_data \<longrightarrow>
        (\<forall>r \<in> set savings_data. Disk_Type r = ''pd-ssd''))"
proof (intro conjI allI impI)
  show ssd: "\<forall>d \<in> set (get_ssd_disk_data compute). Disk_Type d = ''pd-ssd''"
    using collector_records [of compute] by blast
  fix savings_data
  assume "calculate_savings (get_ssd_disk_data compute) = Inr savings_data"
  then have "list_all2 (\<lambda>d r. savings_of d = Inr r) (get_ssd_disk_data compute) savings_data"
    by (rule calculate_savings_Inr)
  then have "map Disk_Type savings_data = map Disk_Type (get_ssd_disk_data compute)"
    by (rule list_all2_map_eq) (rule savings_of_fields)
  then have "set (map Disk_Type savings_data) \<subseteq> {''pd-ssd''}"
    using ssd by auto
  then show "\<forall>r \<in> set savings_data. Disk_Type r = ''pd-ssd''"
    by auto
qed

theorem only_ssd_disks_reach_report_witness:
  "map Disk_Name
     (get_ssd_disk_data
       \<lparr>zones_list = [''us-central1-a'', ''us-west1-a''],
        disks_list = (\<lambda>zone. Inr
          [\<lparr>api_name = ''disk-1'',
            api_type = ''projects/p/zones/us-west1-a/diskTypes/pd-ssd'',
            api_sizeGb = Inr 100, api_users = None\<rparr>,
           \<lparr>api_name = ''disk-2'',
            api_type = ''projects/p/zones/us-west1-a/diskTypes/pd-standard'',
            api_sizeGb = Inr 50, api_users = None\<rparr>]),
        instances_get = (\<lambda>zone instance. Inl KeyError)\<rparr>) = [''disk-1'']
   \<and> map_sum id (map (\<lambda>r. (Disk_Name r, Disk_Type r)))
       (calculate_savings
         (get_ssd_disk_data
           \<lparr>zones_list = [''us-central1-a'', ''us-west1-a''],
            disks_list = (\<lambda>zone. Inr
              [\<lparr>api_name = ''disk-1'',
                api_type = ''projects/p/zones/us-west1-a/diskTypes/pd-ssd'',
                api_sizeGb = Inr 100, api_users = None\<rparr>,
               \<lparr>api_name = ''disk-2'',
                api_type = ''projects/p/zones/us-west1-a/diskTypes/pd-standard'',
                api_sizeGb = Inr 50, api_users = None\<rparr>]),
            instances_get = (\<lambda>zone instance. Inl KeyError)\<rparr>))
     = Inr [(''disk-1'', ''pd-ssd'')]"
  using only_ssd_disks_reach_report
    [of "\<lparr>zones_list = [''us-central1-a'', ''us-west1-a''],
        disks_list = (\<lambda>zone. Inr
          [\<lparr>api_name = ''disk-1'',
            api_type = ''projects/p/zones/us-west1-a/diskTypes/pd-ssd'',
            api_sizeGb = Inr 100, api_users = None\<rparr>,
           \<lparr>api_name = ''disk-2'',
            api_type = ''projects/p/zones/us-west1-a/diskTypes/pd-standard'',
            api_sizeGb = Inr 50, api_users = None\<rparr>]),
        instances_get = (\<lambda>zone instance. Inl KeyError)\<rparr>"]
  unfolding get_ssd_disk_data_example
  by (simp add: calculate_savings_def savings_of_unfold current_cost_100)

section \<open>Facts about the store\<close>

lemma loop_inv_disk_dict_old:
  assumes "loop_inv s0 sd rs s" and "deref s a = Some (Disk_Dict d)"
  shows "a < length s0 \<and> s0 ! a = Disk_Dict d"
proof -
  from assms(2) have a: "a < length s" and sa: "s ! a = Disk_Dict d"
    by (auto simp: deref_def split: if_splits)
  from assms(1) have tk: "take (length s0) s = s0"
    and nd: "list_all (\<lambda>x. case x of Disk_Dict d \<Rightarrow> False | _ \<Rightarrow> True) (drop (length s0) s)"
    by (simp_all add: loop_inv_def)
  have "a < length s0"
  proof (rule ccontr)
    assume "\<not> a < length s0"
    then have "drop (length s0) s ! (a - length s0) = s ! a"
      and "a - length s0 < length (drop (length s0) s)"
      using a by simp_all
    then have "s ! a \<in> set (drop (length s0) s)"
      by (metis nth_mem)
    with nd sa show False
      by (auto simp: list_all_iff)
  qed
  moreover from this tk have "s0 ! a = s ! a"
    by (metis nth_take)
  ultimately show ?thesis
    using sa by simp
qed

lemma calculate_savings_store_loop_correct:
  assumes "loop_inv s0 sd acc s"
    and "calculate_savings_store_loop as sd s = (res, s')"
  shows "take (length s0) s' = s0 \<and>
         (\<forall>a. res = Inr a \<longrightarrow>
            (\<exists>ds rs. list_all (\<lambda>a. a < length s0) as
               \<and> map ((!) s0) as = map Disk_Dict ds
               \<and> calculate_savings_loop ds acc = Inr rs
               \<and> a = sd \<and> loop_inv s0 sd rs s'))"
  using assms
proof (induction as arbitrary: acc s)
  case Nil
  then show ?case
    by (auto simp: loop_inv_def)
next
  case (Cons a as)
  from Cons.prems(1) have len: "length s0 < length s" and tk: "take (length s0) s = s0"
    and sd: "sd = length s0"
    and nd: "list_all (\<lambda>x. case x of Disk_Dict d \<Rightarrow> False | _ \<Rightarrow> True) (drop (length s0) s)"
    by (simp_all add: loop_inv_def)
  show ?case
  proof (cases "\<exists>d. deref s a = Some (Disk_Dict d)")
    case False
    then have "calculate_savings_store_loop (a # as) sd s = (Inl TypeError, s)"
      by (auto split: option.splits obj.splits)
    with Cons.prems(2) tk show ?thesis
      by auto
  next
    case True
    then obtain d where da: "deref s a = Some (Disk_Dict d)"
      by blast
    from loop_inv_disk_dict_old [OF Cons.prems(1) da]
    have a: "a < length s0" and s0a: "s0 ! a = Disk_Dict d"
      by simp_all
    show ?thesis
    proof (cases "savings_of d")
      case (Inl e)
      with Cons.prems(2) da tk show ?thesis
        by auto
    next
      case (Inr r)
      from Cons.prems(1) obtain new where new: "s ! sd = List_Obj new" "distinct new"
        "list_all (\<lambda>a. length s0 < a \<and> a < length s) new"
        "map ((!) s) new = map Savings_Dict acc"
        by (auto simp: loop_inv_def)
      let ?s1 = "s @ [Savings_Dict r]"
      let ?s2 = "?s1[sd := List_Obj (new @ [length s])]"
      have app: "list_append ?s1 sd (length s) = Inr ?s2"
        using len sd new(1) by (simp add: list_append_def deref_def nth_append)
      have tk2: "take (length s0) ?s2 = s0"
        using len sd tk by simp
      have fresh: "length s \<notin> set new"
        using new(3) by (auto simp: list_all_iff)
      have old: "\<forall>x \<in> set new. ?s2 ! x = s ! x"
        using new(3) sd len by (auto simp: list_all_iff nth_append)
      have "map ((!) ?s2) (new @ [length s]) = map Savings_Dict (acc @ [r])"
        using old new(4) sd len by (simp add: nth_append cong: map_cong)
      moreover have "list_all (\<lambda>a. length s0 < a \<and> a < length ?s2) (new @ [length s])"
        using new(3) len by (auto simp: list_all_iff)
      moreover have "list_all (\<lambda>x. case x of Disk_Dict d \<Rightarrow> False | _ \<Rightarrow> True)
          (drop (length s0) ?s2)"
      proof -
        have "drop (length s0) ?s2
            = (drop (length s0) s @ [Savings_Dict r])[0 := List_Obj (new @ [length s])]"
          using len sd by (simp add: drop_update_swap)
        moreover have "list_all (\<lambda>x. case x of Disk_Dict d \<Rightarrow> False | _ \<Rightarrow> True)
            (drop (length s0) s @ [Savings_Dict r])"
          using nd by simp
        ultimately show ?thesis
          by (auto simp: list_all_iff dest!: set_update_subset_insert [THEN subsetD])
      qed
      ultimately have inv: "loop_inv s0 sd (acc @ [r]) ?s2"
        using len sd tk2 new(2) fresh by (simp add: loop_inv_def)
      from Cons.prems(2) da Inr app
      have run: "calculate_savings_store_loop as sd ?s2 = (res, s')"
        by (simp add: Let_def)
      from Cons.IH [OF inv run] have
        tk': "take (length s0) s' = s0" and
        ok: "\<forall>b. res = Inr b \<longrightarrow>
            (\<exists>ds rs. list_all (\<lambda>a. a < length s0) as
               \<and> map ((!) s0) as = map Disk_Dict ds
               \<and> calculate_savings_loop ds (acc @ [r]) = Inr rs
               \<and> b = sd \<and> loop_inv s0 sd rs s')"
        by blast+
      have "\<exists>ds rs. list_all (\<lambda>a. a < length s0) (a # as)
               \<and> map ((!) s0) (a # as) = map Disk_Dict ds
               \<and> calculate_savings_loop ds acc = Inr rs
               \<and> b = sd \<and> loop_inv s0 sd rs s'" if "res = Inr b" for b
      proof -
        from ok that obtain ds rs where
          "list_all (\<lambda>a. a < length s0) as"
          "map ((!) s0) as = map Disk_Dict ds"
          "calculate_savings_loop ds (acc @ [r]) = Inr rs" "b = sd" "loop_inv s0 sd rs s'"
          by blast
        then have "list_all (\<lambda>a. a < length s0) (a # as)
            \<and> map ((!) s0) (a # as) = map Disk_Dict (d # ds)
            \<and> calculate_savings_loop (d # ds) acc = Inr rs \<and> b = sd \<and> loop_inv s0 sd rs s'"
          using s0a a Inr by simp
        then show ?thesis by blast
      qed
      with tk' show ?thesis by blast
    qed
  qed
qed

section \<open>C10: the input of \<open>calculate_savings\<close> is left unchanged\<close>

text \<open>
  C10. Whatever the call does (return or raise), every object that was in the store
  before the call, the list \<open>disk_data\<close> and each dict in it among them, is the same
  after the call. When the call returns, the result is a new list object, its elements
  are new and pairwise different dict objects, one per input dict and in input order:
  the i-th holds the record computed from the i-th input dict.
\<close>

theorem calculate_savings_leaves_input_unchanged:
  assumes "disk_data < length s"
    and "calculate_savings_store disk_data s = (res, s')"
  shows "take (length s) s' = s
       \<and> (\<forall>savings_data. res = Inr savings_data \<longrightarrow>
            (\<exists>as ds new rs.
               s ! disk_data = List_Obj as
               \<and> list_all (\<lambda>a. a < length s) as
               \<and> map ((!) s) as = map Disk_Dict ds
               \<and> length s \<le> savings_data \<and> savings_data < length s'
               \<and> s' ! savings_data = List_Obj new
               \<and> distinct new
               \<and> list_all (\<lambda>a. length s \<le> a \<and> a < length s') new
               \<and> map ((!) s') new = map Savings_Dict rs
               \<and> calculate_savings ds = Inr rs
               \<and> list_all2 (\<lambda>d r. savings_of d = Inr r) ds rs))"
proof -
  let ?s1 = "s @ [List_Obj []]"
  have d1: "deref ?s1 disk_data = Some (s ! disk_data)"
    using assms(1) by (simp add: deref_def nth_append)
  have inv: "loop_inv s (length s) [] ?s1"
    by (simp add: loop_inv_def)
  show ?thesis
  proof (cases "\<exists>as. s ! disk_data = List_Obj as")
    case False
    then have "calculate_savings_store disk_data s = (Inl TypeError, ?s1)"
      using d1 by (auto simp: calculate_savings_store_def Let_def split: obj.splits)
    with assms(2) show ?thesis
      by auto
  next
    case True
    then obtain as where as: "s ! disk_data = List_Obj as"
      by blast
    with d1 assms(2) have run: "calculate_savings_store_loop as (length s) ?s1 = (res, s')"
      by (simp add: calculate_savings_store_def Let_def)
    from calculate_savings_store_loop_correct [OF inv run]
    have tk: "take (length s) s' = s"
      and ok: "\<forall>a. res = Inr a \<longrightarrow>
            (\<exists>ds rs. list_all (\<lambda>a. a < length s) as
               \<and> map ((!) s) as = map Disk_Dict ds
               \<and> calculate_savings_loop ds [] = Inr rs
               \<and> a = length s \<and> loop_inv s (length s) rs s')"
      by blast+
    have "\<exists>as ds new rs.
               s ! disk_data = List_Obj as
               \<and> list_all (\<lambda>a. a < length s) as
               \<and> map ((!) s) as = map Disk_Dict ds
               \<and> length s \<le> sd \<and> sd < length s'
               \<and> s' ! sd = List_Obj new
               \<and> distinct new
               \<and> list_all (\<lambda>a. length s \<le> a \<and> a < length s') new
               \<and> map ((!) s') new = map Savings_Dict rs
               \<and> calculate_savings ds = Inr rs
               \<and> list_all2 (\<lambda>d r. savings_of d = Inr r) ds rs" if "res = Inr sd" for sd
    proof -
      from ok that obtain ds rs where 1: "list_all (\<lambda>a. a < length s) as"
        "map ((!) s) as = map Disk_Dict ds" "calculate_savings_loop ds [] = Inr rs"
        "sd = length s" "loop_inv s (length s) rs s'"
        by blast
      from 1(5) obtain new where 2: "length s < length s'" "s' ! length s = List_Obj new"
        "distinct new" "list_all (\<lambda>a. length s < a \<and> a < length s') new"
        "map ((!) s') new = map Savings_Dict rs"
        by (auto simp: loop_inv_def)
      from 2(4) have 3: "list_all (\<lambda>a. length s \<le> a \<and> a < length s') new"
        by (auto simp: list_all_iff)
      from 1(3) have 4: "calculate_savings ds = Inr rs"
        by (simp add: calculate_savings_def)
      from 4 have 5: "list_all2 (\<lambda>d r. savings_of d = Inr r) ds rs"
        by (rule calculate_savings_Inr)
      from as 1 2 3 4 5 show ?thesis
        by auto
    qed
    with tk show ?thesis
      by blast
  qed
qed


lemma savings_of_100:
  "savings_of
     \<lparr>Disk_Name = ''disk-1'', Disk_Type = ''pd-ssd'', Disk_Size_GB = 100,
      Zone = ''us-west1-a'', Region = ''us-west1'', Attached_To = ''Not attached'',
      Is_Boot_Disk = ''No''\<rparr>
   = Inr
     \<lparr>Disk_Name = ''disk-1'', Disk_Type = ''pd-ssd'', Disk_Size_GB = 100,
      Zone = ''us-west1-a'', Region = ''us-west1'', Attached_To = ''Not attached'',
      Is_Boot_Disk = ''No'',
      Current_Monthly_Cost_USD = 17, Balanced_Monthly_Cost_USD = 10,
      Monthly_Savings_USD = 7, Annual_Savings_USD = 84,
      Savings_Percentage = fl (412 / 10)\<rparr>"
  by (simp add: savings_of_unfold lookup_prices_const cost_defs float_ops fl_eval)

lemma calculate_savings_store_example:
  "calculate_savings_store 1
     [Disk_Dict
        \<lparr>Disk_Name = ''disk-1'', Disk_Type = ''pd-ssd'', Disk_Size_GB = 100,
         Zone = ''us-west1-a'', Region = ''us-west1'', Attached_To = ''Not attached'',
         Is_Boot_Disk = ''No''\<rparr>,
      List_Obj [0]]
   = (Inr 2,
      [Disk_Dict
         \<lparr>Disk_Name = ''disk-1'', Disk_Type = ''pd-ssd'', Disk_Size_GB = 100,
          Zone = ''us-west1-a'', Region = ''us-west1'', Attached_To = ''Not attached'',
          Is_Boot_Disk = ''No''\<rparr>,
       List_Obj [0],
       List_Obj [3],
       Savings_Dict
         \<lparr>Disk_Name = ''disk-1'', Disk_Type = ''pd-ssd'', Disk_Size_GB = 100,
          Zone = ''us-west1-a'', Region = ''us-west1'', Attached_To = ''Not attached'',
          Is_Boot_Disk = ''No'',
          Current_Monthly_Cost_USD = 17, Balanced_Monthly_Cost_USD = 10,
          Monthly_Savings_USD = 7, Annual_Savings_USD = 84,
          Savings_Percentage = fl (412 / 10)\<rparr>])"
  unfolding calculate_savings_store_def
  by (simp add: deref_def list_append_def savings_of_100 Let_def)

theorem calculate_savings_leaves_input_unchanged_witness:
  "calculate_savings_store 1
     [Disk_Dict
        \<lparr>Disk_Name = ''disk-1'', Disk_Type = ''pd-ssd'', Disk_Size_GB = 100,
         Zone = ''us-west1-a'', Region = ''us-west1'', Attached_To = ''Not attached'',
         Is_Boot_Disk = ''No''\<rparr>,
      List_Obj [0]]
   = (Inr 2,
      [Disk_Dict
         \<lparr>Disk_Name = ''disk-1'', Disk_Type = ''pd-ssd'', Disk_Size_GB = 100,
          Zone = ''us-west1-a'', Region = ''us-west1'', Attached_To = ''Not attached'',
          Is_Boot_Disk = ''No''\<rparr>,
       List_Obj [0],
       List_Obj [3],
       Savings_Dict
         \<lparr>Disk_Name = ''disk-1'', Disk_Type = ''pd-ssd'', Disk_Size_GB = 100,
          Zone = ''us-west1-a'', Region = ''us-west1'', Attached_To = ''Not attached'',
          Is_Boot_Disk = ''No'',
          Current_Monthly_Cost_USD = 17, Balanced_Monthly_Cost_USD = 10,
          Monthly_Savings_USD = 7, Annual_Savings_USD = 84,
          Savings_Percentage = fl (412 / 10)\<rparr>])
   \<and> take 2
       [Disk_Dict
          \<lparr>Disk_Name = ''disk-1'', Disk_Type = ''pd-ssd'', Disk_Size_GB = 100,
           Zone = ''us-west1-a'', Region = ''us-west1'', Attached_To = ''Not attached'',
           Is_Boot_Disk = ''No''\<rparr>,
        List_Obj [0],
        List_Obj [3],
        Savings_Dict
          \<lparr>Disk_Name = ''disk-1'', Disk_Type = ''pd-ssd'', Disk_Size_GB = 100,
           Zone = ''us-west1-a'', Region = ''us-west1'', Attached_To = ''Not attached'',
           Is_Boot_Disk = ''No'',
           Current_Monthly_Cost_USD = 17, Balanced_Monthly_Cost_USD = 10,
           Monthly_Savings_USD = 7, Annual_Savings_USD = 84,
           Savings_Percentage = fl (412 / 10)\<rparr>]
     = [Disk_Dict
          \<lparr>Disk_Name = ''disk-1'', Disk_Type = ''pd-ssd'', Disk_Size_GB = 100,
           Zone = ''us-west1-a'', Region = ''us-west1'', Attached_To = ''Not attached'',
           Is_Boot_Disk = ''No''\<rparr>,
        List_Obj [0]]"
proof -
  let ?s = "[Disk_Dict
        \<lparr>Disk_Name = ''disk-1'', Disk_Type = ''pd-ssd'', Disk_Size_GB = 100,
         Zone = ''us-west1-a'', Region = ''us-west1'', Attached_To = ''Not attached'',
         Is_Boot_Disk = ''No''\<rparr>,
      List_Obj [0]]"
  have ref: "1 < length ?s"
    by simp
  from calculate_savings_leaves_input_unchanged [OF ref calculate_savings_store_example]
    calculate_savings_store_example
  show ?thesis
    by simp
qed

end
